theory Spec2Isabelle
  imports Main "HOL-Library.Sublist"
begin

section \<open>Error message templates (\<^verbatim>\<open>src/error_messages.py\<close>)\<close>

text \<open>
  The module has one function,
  \<^verbatim>\<open>get_file_locked_message(filepath)\<close>, whose body is a single
  \<^verbatim>\<open>return\<close> of a triple-quoted f-string with one replacement field,
  \<^verbatim>\<open>{filepath}\<close>.

  A Python \<^verbatim>\<open>str\<close> is modelled as a \<^typ>\<open>string\<close>. The function only
  concatenates text, it never inspects a character, so nothing below depends on
  which characters a string may hold.
\<close>

subsection \<open>Values, exceptions and program state\<close>

text \<open>
  An exception is a value: a computation returns \<open>Inl\<close> of the exception raised or
  \<open>Inr\<close> of its result, together with the program state it leaves behind. The state
  type \<open>'s\<close> stands for everything a Python program can observe (globals, heap, files)
  and is left arbitrary.
\<close>

datatype error = Raised string

type_synonym ('s, 'a) py = "'s \<Rightarrow> (error + 'a) \<times> 's"

text \<open>
  The parameter \<^verbatim>\<open>filepath\<close> is untyped in the source. An argument is either a
  \<^verbatim>\<open>str\<close> or some other object; of another object the f-string uses nothing
  but its \<^verbatim>\<open>__format__\<close> method, called with the empty format
  specification, which may return text, raise, and change the state.
\<close>

datatype 's pyval =
    Str string
  | Obj "('s, string) py"

text \<open>
  Formatting a replacement field with no conversion and no format specification is
  \<^verbatim>\<open>format(value, '')\<close>. For a \<^verbatim>\<open>str\<close> that is the string itself.
\<close>

fun format_value :: "'s pyval \<Rightarrow> ('s, string) py" where
  "format_value (Str s) \<sigma> = (Inr s, \<sigma>)"
| "format_value (Obj fmt) \<sigma> = fmt \<sigma>"

subsection \<open>f-strings\<close>

text \<open>
  An f-string is a sequence of literal pieces and replacement fields (the
  \<^verbatim>\<open>Constant\<close> and \<^verbatim>\<open>FormattedValue\<close> children of a
  \<^verbatim>\<open>JoinedStr\<close> node). It is evaluated from left to right, threading the state;
  the first exception ends the evaluation.
\<close>

datatype 's fpart =
    Constant string
  | FormattedValue "'s pyval"

fun joined_str :: "'s fpart list \<Rightarrow> ('s, string) py" where
  "joined_str [] \<sigma> = (Inr [], \<sigma>)"
| "joined_str (Constant s # ps) \<sigma> =
     (case joined_str ps \<sigma> of
        (Inl e, \<sigma>') \<Rightarrow> (Inl e, \<sigma>')
      | (Inr t, \<sigma>') \<Rightarrow> (Inr (s @ t), \<sigma>'))"
| "joined_str (FormattedValue v # ps) \<sigma> =
     (case format_value v \<sigma> of
        (Inl e, \<sigma>') \<Rightarrow> (Inl e, \<sigma>')
      | (Inr s, \<sigma>') \<Rightarrow>
          (case joined_str ps \<sigma>' of
             (Inl e, \<sigma>'') \<Rightarrow> (Inl e, \<sigma>'')
           | (Inr t, \<sigma>'') \<Rightarrow> (Inr (s @ t), \<sigma>'')))"

subsection \<open>The function\<close>

text \<open>
  \<^verbatim>\<open>
  def get_file_locked_message(filepath):
      return f"""
  File Save Error

  The file could not be saved because it is currently open in another program.

  Please close the file "{filepath}" and try again.
  """
  \<close>
  The literal opens with the line break after the opening quotes and closes with the
  line break before the closing quotes.
\<close>

definition get_file_locked_message :: "'s pyval \<Rightarrow> ('s, string) py" where
  \<open>get_file_locked_message filepath =
     joined_str
       [Constant ''\<newline>File Save Error\<newline>\<newline>The file could not be saved because it is currently open in another program.\<newline>\<newline>Please close the file "'',
        FormattedValue filepath,
        Constant ''" and try again.\<newline>'']\<close>

subsection \<open>Lines of a text\<close>

text \<open>
  The lines of a text are the pieces between its line breaks, as
  \<^verbatim>\<open>text.split('\n')\<close> returns them: a text with \<open>n\<close> line breaks has
  \<open>n + 1\<close> lines, some of them possibly empty.
\<close>

fun lines_of :: "string \<Rightarrow> string list" where
  "lines_of [] = [[]]"
| "lines_of (c # cs) =
     (if c = CHR 0x0A then [] # lines_of cs
      else (case lines_of cs of
              [] \<Rightarrow> [[c]]
            | l # ls \<Rightarrow> (c # l) # ls))"

section \<open>Properties\<close>

subsection \<open>Auxiliary facts\<close>

lemma joined_str_template:
  "joined_str [Constant a, FormattedValue (Str p), Constant b] \<sigma> = (Inr (a @ p @ b), \<sigma>)"
  by simp

lemma get_file_locked_message_Str:
  \<open>get_file_locked_message (Str p) \<sigma> =
     (Inr (''\<newline>File Save Error\<newline>\<newline>The file could not be saved because it is currently open in another program.\<newline>\<newline>Please close the file "''
           @ p @ ''" and try again.\<newline>''), \<sigma>)\<close>
  unfolding get_file_locked_message_def by (rule joined_str_template)

lemma lines_of_not_Nil: "lines_of s \<noteq> []"
  by (induction s) (auto split: list.splits)

lemma lines_of_line:
  "CHR 0x0A \<notin> set l \<Longrightarrow> lines_of (l @ CHR 0x0A # rest) = l # lines_of rest"
  by (induction l) auto

text \<open>
  The model is not degenerate: an argument that is not a \<^verbatim>\<open>str\<close> can make the
  call raise, and can make it change the state. The theorems below are about
  \<^verbatim>\<open>str\<close> arguments, where neither happens.
\<close>

lemma get_file_locked_message_Obj_raises:
  "get_file_locked_message (Obj (\<lambda>\<sigma>. (Inl e, \<sigma>))) \<sigma> = (Inl e, \<sigma>)"
  by (simp add: get_file_locked_message_def)

lemma get_file_locked_message_Obj_effect:
  "snd (get_file_locked_message (Obj (\<lambda>\<sigma>. (Inr s, f \<sigma>))) \<sigma>) = f \<sigma>"
  by (simp add: get_file_locked_message_def)

subsection \<open>The path appears verbatim\<close>

text \<open>
  Claim C1. For every string \<open>p\<close>, the text returned by
  \<^verbatim>\<open>get_file_locked_message(p)\<close> contains \<open>p\<close> itself as a contiguous
  substring: nothing is escaped, cut off or otherwise changed.
\<close>

theorem get_file_locked_message_contains_path:
  "\<exists>m. fst (get_file_locked_message (Str p) \<sigma>) = Inr m \<and> sublist p m"
  unfolding get_file_locked_message_Str fst_conv
  by (rule exI, rule conjI, rule refl, rule sublist_appendI)

subsection \<open>The call always returns\<close>

text \<open>
  Claim C2. For every string argument, the empty string included, the call returns a
  message; no exception is raised, in whatever state the call is made.
\<close>

theorem get_file_locked_message_never_raises:
  "(\<forall>p \<sigma>. \<exists>m. fst (get_file_locked_message (Str p) (\<sigma>::'s)) = Inr m)
   \<and> (\<forall>\<sigma>. \<exists>m. fst (get_file_locked_message (Str '''') (\<sigma>::'s)) = Inr m)"
  unfolding get_file_locked_message_Str by simp

subsection \<open>The template\<close>

text \<open>
  Claim C3. For every string \<open>p\<close>, the returned message is the fixed text up to and
  including the opening double quote, then \<open>p\<close>, then the fixed text from the closing
  double quote on.
\<close>

theorem get_file_locked_message_template:
  \<open>fst (get_file_locked_message (Str p) \<sigma>) =
     Inr (''\<newline>File Save Error\<newline>\<newline>The file could not be saved because it is currently open in another program.\<newline>\<newline>Please close the file "''
          @ p @ ''" and try again.\<newline>'')\<close>
  unfolding get_file_locked_message_Str by (rule fst_conv)

subsection \<open>The two examples\<close>

text \<open>
  Claim C4. For the argument \<^verbatim>\<open>/tmp/report.docx\<close>, one of the lines of the returned
  message is \<^verbatim>\<open>Please close the file "/tmp/report.docx" and try again.\<close>
\<close>

theorem get_file_locked_message_report_docx:
  \<open>\<exists>m. fst (get_file_locked_message (Str ''/tmp/report.docx'') \<sigma>) = Inr m
        \<and> ''Please close the file "/tmp/report.docx" and try again.'' \<in> set (lines_of m)\<close>
  unfolding get_file_locked_message_Str by simp

text \<open>
  Claim C5. For the empty string, the returned message contains
  \<^verbatim>\<open>Please close the file "" and try again.\<close> The empty string has no case of its
  own: its message is the text around the path in the message of any other argument.
\<close>

theorem get_file_locked_message_empty_path:
  \<open>\<exists>m. fst (get_file_locked_message (Str '''') \<sigma>) = Inr m
        \<and> sublist ''Please close the file "" and try again.'' m
        \<and> (\<forall>p. \<exists>a b. fst (get_file_locked_message (Str p) \<sigma>) = Inr (a @ p @ b) \<and> m = a @ b)\<close>
proof -
  have r: \<open>get_file_locked_message (Str '''') \<sigma> =
     (Inr (''\<newline>File Save Error\<newline>\<newline>The file could not be saved because it is currently open in another program.\<newline>\<newline>Please close the file "''
           @ '''' @ ''" and try again.\<newline>''), \<sigma>)\<close>
    (is "_ = (Inr (?a @ _ @ ?b), _)")
    by (rule get_file_locked_message_Str)
  have returned: "fst (get_file_locked_message (Str '''') \<sigma>) = Inr (?a @ ?b)"
    by (simp only: r fst_conv append_Nil)
  have instruction: \<open>sublist ''Please close the file "" and try again.'' (?a @ ?b)\<close>
    by code_simp
  have same_template:
    "\<exists>a b. fst (get_file_locked_message (Str p) \<sigma>) = Inr (a @ p @ b) \<and> ?a @ ?b = a @ b" for p
    by (simp only: get_file_locked_message_Str fst_conv) blast
  from returned instruction same_template show ?thesis by blast
qed

subsection \<open>What the message says\<close>

text \<open>
  Claim C6. For every string \<open>p\<close>, the returned message has more than one line: it
  contains a line break, and among its lines are the heading and the sentence saying
  that the file could not be saved because it is open in another program. It also
  contains the instruction to close the file \<open>p\<close>, named between double quotes, and to
  try again.
\<close>

theorem get_file_locked_message_content:
  \<open>\<exists>m. fst (get_file_locked_message (Str p) \<sigma>) = Inr m
        \<and> CHR 0x0A \<in> set m
        \<and> ''File Save Error'' \<in> set (lines_of m)
        \<and> ''The file could not be saved because it is currently open in another program.''
            \<in> set (lines_of m)
        \<and> sublist (''Please close the file "'' @ p @ ''" and try again.'') m\<close>
proof -
  have r: \<open>get_file_locked_message (Str p) \<sigma> =
     (Inr (''\<newline>File Save Error\<newline>\<newline>The file could not be saved because it is currently open in another program.\<newline>\<newline>Please close the file "''
           @ p @ ''" and try again.\<newline>''), \<sigma>)\<close>
    (is "_ = (Inr ?m, _)")
    by (rule get_file_locked_message_Str)
  have returned: "fst (get_file_locked_message (Str p) \<sigma>) = Inr ?m"
    by (simp only: r fst_conv)
  have line_break: "CHR 0x0A \<in> set ?m"
    by simp
  have heading: "''File Save Error'' \<in> set (lines_of ?m)"
    by simp
  have reason:
    "''The file could not be saved because it is currently open in another program.''
       \<in> set (lines_of ?m)"
    by simp
  have \<open>?m = ''\<newline>File Save Error\<newline>\<newline>The file could not be saved because it is currently open in another program.\<newline>\<newline>''
       @ (''Please close the file "'' @ p @ ''" and try again.'') @ ''\<newline>''\<close>
    by simp
  then have instruction: \<open>sublist (''Please close the file "'' @ p @ ''" and try again.'') ?m\<close>
    by (simp only: sublist_appendI)
  from returned line_break heading reason instruction show ?thesis by blast
qed

subsection \<open>Determinism and purity\<close>

text \<open>
  Claim C7. The result depends on the argument only: two calls with the same string
  return the same message, whatever the states they are made in.
\<close>

theorem get_file_locked_message_deterministic:
  "fst (get_file_locked_message (Str p) \<sigma>) = fst (get_file_locked_message (Str p) \<sigma>')"
  unfolding get_file_locked_message_Str by simp

text \<open>
  Claim C8. A call with a string argument has no side effect: the program state after
  the call is the state before it.
\<close>

theorem get_file_locked_message_pure:
  "snd (get_file_locked_message (Str p) \<sigma>) = \<sigma>"
  unfolding get_file_locked_message_Str by (rule snd_conv)

subsection \<open>Injectivity\<close>

text \<open>
  Claim C9. Different paths give different messages: if the calls for the strings
  \<open>p\<close> and \<open>q\<close> return the same, then \<open>p = q\<close>.
\<close>

theorem get_file_locked_message_inj:
  "fst (get_file_locked_message (Str p) \<sigma>) = fst (get_file_locked_message (Str q) \<sigma>')
   \<Longrightarrow> p = q"
  unfolding get_file_locked_message_Str by simp

theorem get_file_locked_message_inj_witness:
  "fst (get_file_locked_message (Str ''a.txt'') ()) =
     fst (get_file_locked_message (Str ''a.txt'') ())
   \<and> ''a.txt'' = ''a.txt''"
proof -
  have same: "fst (get_file_locked_message (Str ''a.txt'') ()) =
      fst (get_file_locked_message (Str ''a.txt'') ())"
    by (rule refl)
  have "''a.txt'' = ''a.txt''"
    by (rule get_file_locked_message_inj [OF same])
  with same show ?thesis by (rule conjI)
qed

subsection \<open>First and last characters\<close>

text \<open>
  Claim C10. For every string \<open>p\<close>, the returned message starts with a line break
  followed by the heading line \<^verbatim>\<open>File Save Error\<close>, and its last character is a
  line break.
\<close>

theorem get_file_locked_message_leading_trailing_newline:
  \<open>\<exists>m. fst (get_file_locked_message (Str p) \<sigma>) = Inr m
        \<and> prefix ''\<newline>File Save Error\<newline>'' m \<and> suffix ''\<newline>'' m\<close>
  unfolding get_file_locked_message_Str by (simp add: suffix_def)

end
